theory Spec2Isabelle
  imports Complex_Main "HOL-Library.Word"
begin

section \<open>The JSON-RPC client core: data model\<close>

text \<open>
  The embedding follows the Go source of the RPC client (package \<open>bch_rpc\<close>): the request
  registry (\<open>addRequest\<close>, \<open>removeRequest\<close>, \<open>removeAllRequests\<close>), the message decoder
  (\<open>handleMessage\<close>), the HTTP POST send path (\<open>sendPost\<close>, \<open>sendPostRequest\<close>,
  \<open>handleSendPostMessage\<close>, \<open>sendPostHandler\<close>), \<open>sendCmd\<close> and \<open>Shutdown\<close>.

  Every source function is one state transformer on the client. A function that can park
  its goroutine on a channel operation returns an \<open>option\<close>: \<open>None\<close> means that, from the
  given state, the call does not return (a send on a nil channel, a send on a full
  buffer, a receive on an empty one). The registry functions run under \<open>requestLock\<close> in
  the source; here each of them is a single function application, which is the atomicity
  the lock provides.
\<close>

text \<open>A \<open>[]byte\<close> that may be nil: \<open>None\<close> is the nil slice.\<close>

type_synonym bytes = "string option"

text \<open>
  A \<open>float64\<close> decoded from a JSON number is finite, hence a rational number; comparison
  and \<open>math.Trunc\<close> are exact on it.
\<close>

type_synonym float64 = rat

text \<open>\<open>btcjson.RPCError\<close>.\<close>

record RPCError =
  Code :: int
  Message :: string

text \<open>
  Go \<open>error\<close> values: the package's sentinel errors, a structured RPC error, an error
  produced by an external library (kept by its message), and \<open>fmt.Errorf\<close> applied to a
  format string and its arguments.
\<close>

datatype error =
    ErrInvalidAuth
  | ErrInvalidEndpoint
  | ErrClientNotConnected
  | ErrClientDisconnect
  | ErrClientShutdown
  | ErrNotWebsocketClient
  | ErrClientAlreadyConnected
  | RPCErr RPCError
  | LibError string
  | Errorf string "fmtarg list"
and fmtarg = ArgInt int | ArgStr string | ArgErr error

text \<open>\<open>response\<close>: the raw bytes of a JSON-RPC result, or the error.\<close>

record response =
  result :: bytes
  err :: "error option"

text \<open>
  A \<open>chan *response\<close> value: nil, or the address of a channel in the store \<open>chans\<close> of the
  client state. Every response channel of the package is made with capacity 1, so a
  channel's buffer is one optional response.
\<close>

type_synonym chan = "nat option"

text \<open>\<open>jsonRequest\<close> (the fields \<open>id\<close> and \<open>method\<close> are \<open>jreq_id\<close> and \<open>jreq_method\<close>).\<close>

record 'cmd jsonRequest =
  jreq_id :: "64 word"
  jreq_method :: string
  cmd :: 'cmd
  marshalledJSON :: string
  responseChan :: chan

text \<open>The parts of \<open>*http.Request\<close> that \<open>sendPost\<close> sets.\<close>

record httpRequest =
  ReqMethod :: string
  URL :: string
  Body :: string
  Close :: bool
  ContentType :: string
  BasicAuth :: "(string \<times> string) option"

record 'cmd sendPostDetails =
  httpRequest :: httpRequest
  jsonRequest :: "'cmd jsonRequest"

text \<open>The fields of \<open>ConnConfig\<close> that the modelled functions read.\<close>

record ConnConfig =
  Host :: string
  User :: string
  Pass :: string
  DisableTLS :: bool
  HTTPPostMode :: bool

text \<open>
  A \<open>*list.Element\<close> of \<open>container/list\<close>: its address and the value it holds. Element
  values are never changed after \<open>PushBack\<close>.
\<close>

type_synonym 'cmd Element = "nat \<times> 'cmd jsonRequest"

text \<open>
  \<open>Client\<close>. \<open>client_id\<close> is the field \<open>id\<close>; \<open>shutdown\<close> says whether the shutdown channel
  is closed; \<open>sendPostChan\<close> is the content of the buffered channel, oldest first.
  \<open>elemNext\<close> and \<open>chanNext\<close> are the next fresh addresses for list elements and
  channels, and \<open>chans\<close> is the store of response channels. The connection fields
  (\<open>mtx\<close>, \<open>disconnected\<close>, \<open>retryCount\<close>, \<open>sendChan\<close>, \<open>connEstablished\<close>, \<open>disconnect\<close>),
  \<open>httpClient\<close> (its round trip is \<open>Do\<close> below) and the wait group are left out: no result
  of the functions below depends on them.
\<close>

record 'cmd Client =
  client_id :: "64 word"
  config :: ConnConfig
  requestMap :: "64 word \<rightharpoonup> 'cmd Element"
  requestList :: "'cmd Element list"
  elemNext :: nat
  sendPostChan :: "'cmd sendPostDetails list"
  shutdown :: bool
  chans :: "nat \<Rightarrow> response option"
  chanNext :: nat

text \<open>The partially unmarshalled inbound message.\<close>

record rawNotification =
  Method :: string
  Params :: "string list option"

record rawResponse =
  Result :: bytes
  Error :: "RPCError option"

record inMessage =
  ID :: "float64 option"
  rawNotification :: "rawNotification option"
  rawResponse :: "rawResponse option"

text \<open>
  What \<open>httpClient.Do\<close> followed by \<open>ioutil.ReadAll\<close> of the body can give: the request
  fails, the body cannot be read (status code known), or a body is read.
\<close>

datatype httpOutcome =
    DoFailed error
  | ReadFailed int error
  | ReadAll int string

text \<open>
  The external collaborators, as functions: \<open>btcjson.CmdMethod\<close>, \<open>btcjson.MarshalCmd\<close>,
  \<open>http.NewRequestWithContext\<close> (with the caller's context fixed), \<open>json.Unmarshal\<close> into
  an \<open>inMessage\<close> and into a \<open>rawResponse\<close>, the HTTP round trip, and the
  implementation-dependent result of converting a \<open>float64\<close> of at least \<open>2^64\<close> to
  \<open>uint64\<close>.
\<close>

record 'cmd env =
  CmdMethod :: "'cmd \<Rightarrow> error + string"
  MarshalCmd :: "string \<Rightarrow> 64 word \<Rightarrow> 'cmd \<Rightarrow> error + string"
  NewRequestWithContext :: "string \<Rightarrow> string \<Rightarrow> string \<Rightarrow> error + httpRequest"
  Unmarshal_inMessage :: "string \<Rightarrow> error + inMessage"
  Unmarshal_rawResponse :: "string \<Rightarrow> error + rawResponse"
  Do :: "httpRequest \<Rightarrow> httpOutcome"
  uint64_out_of_range :: "float64 \<Rightarrow> 64 word"

section \<open>Channels\<close>

definition sendPostBufferSize :: nat where
  "sendPostBufferSize = 100"

text \<open>\<open>ch <- r\<close> on a response channel: parks on nil and on a full buffer.\<close>

definition chan_send :: "chan \<Rightarrow> response \<Rightarrow> 'cmd Client \<Rightarrow> 'cmd Client option" where
  "chan_send ch r c =
     (case ch of
        None \<Rightarrow> None
      | Some k \<Rightarrow>
          (case chans c k of
             None \<Rightarrow> Some (c\<lparr>chans := (chans c)(k := Some r)\<rparr>)
           | Some _ \<Rightarrow> None))"

text \<open>\<open>make(chan *response, 1)\<close>: a fresh channel with an empty buffer.\<close>

definition make_chan :: "'cmd Client \<Rightarrow> nat \<times> 'cmd Client" where
  "make_chan c =
     (chanNext c, c\<lparr>chans := (chans c)(chanNext c := None), chanNext := chanNext c + 1\<rparr>)"

text \<open>\<open>c.sendPostChan <- details\<close>: parks when the buffer holds \<open>sendPostBufferSize\<close> items.\<close>

definition post_send :: "'cmd sendPostDetails \<Rightarrow> 'cmd Client \<Rightarrow> 'cmd Client option" where
  "post_send d c =
     (if length (sendPostChan c) < sendPostBufferSize
      then Some (c\<lparr>sendPostChan := sendPostChan c @ [d]\<rparr>)
      else None)"

definition newFutureError :: "error \<Rightarrow> 'cmd Client \<Rightarrow> chan \<times> 'cmd Client" where
  "newFutureError e c =
     (case make_chan c of
        (k, c1) \<Rightarrow>
          (Some k, c1\<lparr>chans := (chans c1)(k := Some \<lparr>result = None, err = Some e\<rparr>)\<rparr>))"

text \<open>\<open>receiveFuture\<close>: \<open>r := <-f\<close>, then \<open>(r.result, r.err)\<close>.\<close>

definition receiveFuture :: "chan \<Rightarrow> 'cmd Client \<Rightarrow> ((bytes \<times> error option) \<times> 'cmd Client) option" where
  "receiveFuture f c =
     (case f of
        None \<Rightarrow> None
      | Some k \<Rightarrow>
          (case chans c k of
             None \<Rightarrow> None
           | Some r \<Rightarrow> Some ((result r, err r), c\<lparr>chans := (chans c)(k := None)\<rparr>)))"

section \<open>The request registry\<close>

definition NextID :: "'cmd Client \<Rightarrow> 64 word \<times> 'cmd Client" where
  "NextID c = (client_id c + 1, c\<lparr>client_id := client_id c + 1\<rparr>)"

definition addRequest :: "'cmd jsonRequest \<Rightarrow> 'cmd Client \<Rightarrow> error option \<times> 'cmd Client" where
  "addRequest jReq c =
     (if shutdown c then (Some ErrClientShutdown, c)
      else
        (let element = (elemNext c, jReq) in
         (None,
          c\<lparr>requestList := requestList c @ [element],
            elemNext := elemNext c + 1,
            requestMap := (requestMap c)(jreq_id jReq \<mapsto> element)\<rparr>)))"

text \<open>\<open>requestList.Remove(element)\<close>: unlinks the element with that address.\<close>

definition list_Remove :: "'cmd Element \<Rightarrow> 'cmd Element list \<Rightarrow> 'cmd Element list" where
  "list_Remove e l = filter (\<lambda>e'. fst e' \<noteq> fst e) l"

definition removeRequest :: "64 word \<Rightarrow> 'cmd Client \<Rightarrow> 'cmd jsonRequest option \<times> 'cmd Client" where
  "removeRequest i c =
     (case requestMap c i of
        Some element \<Rightarrow>
          (Some (snd element),
           c\<lparr>requestMap := (requestMap c)(i := None),
             requestList := list_Remove element (requestList c)\<rparr>)
      | None \<Rightarrow> (None, c))"

definition removeAllRequests :: "'cmd Client \<Rightarrow> 'cmd Client" where
  "removeAllRequests c = c\<lparr>requestMap := Map.empty, requestList := []\<rparr>"

section \<open>The message decoder\<close>

definition rawResponse_result :: "rawResponse \<Rightarrow> bytes \<times> error option" where
  "rawResponse_result r =
     (case Error r of
        Some e \<Rightarrow> (None, Some (RPCErr e))
      | None \<Rightarrow> (Result r, None))"

text \<open>\<open>math.Trunc\<close>.\<close>

definition Trunc :: "float64 \<Rightarrow> float64" where
  "Trunc x = (if x < 0 then of_int \<lceil>x\<rceil> else of_int \<lfloor>x\<rfloor>)"

text \<open>The conversion \<open>uint64(x)\<close> of a \<open>float64\<close> that passed the checks of \<open>handleMessage\<close>.\<close>

definition uint64 :: "'cmd env \<Rightarrow> float64 \<Rightarrow> 64 word" where
  "uint64 X x = (if x < 2 ^ 64 then word_of_int \<lfloor>x\<rfloor> else uint64_out_of_range X x)"

definition handleMessage :: "'cmd env \<Rightarrow> string \<Rightarrow> 'cmd Client \<Rightarrow> 'cmd Client option" where
  "handleMessage X msg c =
     (case Unmarshal_inMessage X msg of
        Inl e \<Rightarrow> Some c
      | Inr inm \<Rightarrow>
          (case ID inm of
             None \<Rightarrow>
               (case rawNotification inm of
                  None \<Rightarrow> Some c
                | Some ntfn \<Rightarrow>
                    if Method ntfn = [] then Some c
                    else if Params ntfn = None then Some c
                    else Some c)
           | Some x \<Rightarrow>
               if x < 0 \<or> x \<noteq> Trunc x then Some c
               else
                 (case rawResponse inm of
                    None \<Rightarrow> Some c
                  | Some r \<Rightarrow>
                      (case removeRequest (uint64 X x) c of
                         (None, c1) \<Rightarrow> Some c1
                       | (Some request, c1) \<Rightarrow>
                           (case responseChan request of
                              None \<Rightarrow> Some c1
                            | Some k \<Rightarrow>
                                (case rawResponse_result r of
                                   (res, e) \<Rightarrow>
                                     chan_send (Some k) \<lparr>result = res, err = e\<rparr> c1))))))"

section \<open>The HTTP POST send path\<close>

definition handleSendPostMessage ::
  "'cmd env \<Rightarrow> 'cmd sendPostDetails \<Rightarrow> 'cmd Client \<Rightarrow> 'cmd Client option" where
  "handleSendPostMessage X details c =
     (let jReq = jsonRequest details in
      case Do X (httpRequest details) of
        DoFailed e \<Rightarrow> chan_send (responseChan jReq) \<lparr>result = None, err = Some e\<rparr> c
      | ReadFailed status e \<Rightarrow>
          chan_send (responseChan jReq)
            \<lparr>result = None, err = Some (Errorf ''error reading json reply: %v'' [ArgErr e])\<rparr> c
      | ReadAll status respBytes \<Rightarrow>
          (case Unmarshal_rawResponse X respBytes of
             Inl e \<Rightarrow>
               chan_send (responseChan jReq)
                 \<lparr>result = None,
                  err = Some (Errorf ''status code: %d, response: %q''
                                [ArgInt status, ArgStr respBytes])\<rparr> c
           | Inr resp \<Rightarrow>
               (case rawResponse_result resp of
                  (res, e) \<Rightarrow> chan_send (responseChan jReq) \<lparr>result = res, err = e\<rparr> c)))"

text \<open>
  The cleanup loop of \<open>sendPostHandler\<close>: every queued request is taken off the queue
  and sent \<open>ErrClientShutdown\<close>, until the queue is empty.
\<close>

fun cleanup :: "'cmd sendPostDetails list \<Rightarrow> 'cmd Client \<Rightarrow> 'cmd Client option" where
  "cleanup [] c = Some c"
| "cleanup (details # q) c =
     (case chan_send (responseChan (jsonRequest details))
             \<lparr>result = None, err = Some ErrClientShutdown\<rparr> (c\<lparr>sendPostChan := q\<rparr>) of
        None \<Rightarrow> None
      | Some c1 \<Rightarrow> cleanup q c1)"

text \<open>
  \<open>sendPostHandler\<close>. Each iteration of the first loop is a \<open>select\<close> between a receive
  from the queue and the closed shutdown channel; the list of picks says which ready case
  each \<open>select\<close> takes (Go chooses among ready cases at random). A pick that is not ready,
  or no pick left, parks the goroutine.
\<close>

datatype pick = RecvDetails | RecvShutdown

fun sendPostHandler :: "'cmd env \<Rightarrow> pick list \<Rightarrow> 'cmd Client \<Rightarrow> 'cmd Client option" where
  "sendPostHandler X [] c = None"
| "sendPostHandler X (RecvDetails # ps) c =
     (case sendPostChan c of
        [] \<Rightarrow> None
      | details # q \<Rightarrow>
          (case handleSendPostMessage X details (c\<lparr>sendPostChan := q\<rparr>) of
             None \<Rightarrow> None
           | Some c1 \<Rightarrow> sendPostHandler X ps c1))"
| "sendPostHandler X (RecvShutdown # ps) c =
     (if shutdown c then cleanup (sendPostChan c) c else None)"

definition sendPostRequest ::
  "httpRequest \<Rightarrow> 'cmd jsonRequest \<Rightarrow> 'cmd Client \<Rightarrow> 'cmd Client option" where
  "sendPostRequest httpReq jReq c =
     (case (if shutdown c
            then chan_send (responseChan jReq) \<lparr>result = None, err = Some ErrClientShutdown\<rparr> c
            else Some c) of
        None \<Rightarrow> None
      | Some c1 \<Rightarrow> post_send \<lparr>httpRequest = httpReq, jsonRequest = jReq\<rparr> c1)"

definition sendPost :: "'cmd env \<Rightarrow> 'cmd jsonRequest \<Rightarrow> 'cmd Client \<Rightarrow> 'cmd Client option" where
  "sendPost X jReq c =
     (let protocol = (if \<not> DisableTLS (config c) then ''https'' else ''http'');
          url = protocol @ ''://'' @ Host (config c)
      in case NewRequestWithContext X ''POST'' url (marshalledJSON jReq) of
           Inl e \<Rightarrow> chan_send (responseChan jReq) \<lparr>result = None, err = Some e\<rparr> c
         | Inr httpReq \<Rightarrow>
             sendPostRequest
               (httpReq\<lparr>Close := True,
                        ContentType := ''application/json'',
                        BasicAuth := Some (User (config c), Pass (config c))\<rparr>)
               jReq c)"

definition sendRequest :: "'cmd env \<Rightarrow> 'cmd jsonRequest \<Rightarrow> 'cmd Client \<Rightarrow> 'cmd Client option" where
  "sendRequest X jReq c = (if HTTPPostMode (config c) then sendPost X jReq c else Some c)"

definition sendCmd :: "'cmd env \<Rightarrow> 'cmd \<Rightarrow> 'cmd Client \<Rightarrow> (chan \<times> 'cmd Client) option" where
  "sendCmd X command c =
     (case CmdMethod X command of
        Inl e \<Rightarrow> Some (newFutureError e c)
      | Inr method \<Rightarrow>
          (case NextID c of
             (i, c1) \<Rightarrow>
               (case MarshalCmd X ''1.0'' i command of
                  Inl e \<Rightarrow> Some (newFutureError e c1)
                | Inr js \<Rightarrow>
                    (case make_chan c1 of
                       (k, c2) \<Rightarrow>
                         (case sendRequest X
                                 \<lparr>jreq_id = i, jreq_method = method, cmd = command,
                                  marshalledJSON = js, responseChan = Some k\<rparr> c2 of
                            None \<Rightarrow> None
                          | Some c3 \<Rightarrow> Some (Some k, c3))))))"

section \<open>Shutdown\<close>

definition doShutdown :: "'cmd Client \<Rightarrow> bool \<times> 'cmd Client" where
  "doShutdown c = (if shutdown c then (False, c) else (True, c\<lparr>shutdown := True\<rparr>))"

text \<open>The loop of \<open>Shutdown\<close> over the request list, front to back.\<close>

fun deliverShutdown :: "'cmd Element list \<Rightarrow> 'cmd Client \<Rightarrow> 'cmd Client option" where
  "deliverShutdown [] c = Some c"
| "deliverShutdown (e # es) c =
     (case chan_send (responseChan (snd e))
             \<lparr>result = None, err = Some ErrClientShutdown\<rparr> c of
        None \<Rightarrow> None
      | Some c1 \<Rightarrow> deliverShutdown es c1)"

definition Shutdown :: "'cmd Client \<Rightarrow> 'cmd Client option" where
  "Shutdown c =
     (case doShutdown c of
        (False, c1) \<Rightarrow> Some c1
      | (True, c1) \<Rightarrow>
          (case deliverShutdown (requestList c1) c1 of
             None \<Rightarrow> None
           | Some c2 \<Rightarrow> Some (removeAllRequests c2)))"

section \<open>Client construction\<close>

text \<open>
  \<open>New\<close>: the counter at zero, an empty registry, an empty post queue, the shutdown
  channel open. (The error of \<open>newHTTPClient\<close> concerns the proxy URL only and is not
  modelled; \<open>start\<close> launches \<open>sendPostHandler\<close> in HTTP POST mode and nothing otherwise.)
\<close>

definition New :: "ConnConfig \<Rightarrow> 'cmd Client" where
  "New cfg =
     \<lparr>client_id = 0, config = cfg, requestMap = Map.empty, requestList = [],
      elemNext = 0, sendPostChan = [], shutdown = False,
      chans = (\<lambda>k. None), chanNext = 0\<rparr>"

section \<open>Runs of the client\<close>

text \<open>\<open>n\<close> successive calls of \<open>NextID\<close>: the identifiers they return, in order.\<close>

fun NextIDs :: "nat \<Rightarrow> 'cmd Client \<Rightarrow> 64 word list \<times> 'cmd Client" where
  "NextIDs 0 c = ([], c)"
| "NextIDs (Suc n) c =
     (case NextID c of
        (i, c1) \<Rightarrow> (case NextIDs n c1 of (ids, c2) \<Rightarrow> (i # ids, c2)))"

text \<open>
  The operations that act on a client: a caller issues a command, the transport feeds
  an inbound message to the decoder, somebody shuts the client down, the post handler
  goroutine runs, a caller receives from a future. A run applies them one after the
  other and stops at the first that does not return.
\<close>

datatype 'cmd op =
    DoSendCmd 'cmd
  | DoHandleMessage string
  | DoShutdown
  | DoSendPostHandler "pick list"
  | DoReceiveFuture chan

fun apply_op :: "'cmd env \<Rightarrow> 'cmd op \<Rightarrow> 'cmd Client \<Rightarrow> 'cmd Client option" where
  "apply_op X (DoSendCmd command) c = map_option snd (sendCmd X command c)"
| "apply_op X (DoHandleMessage msg) c = handleMessage X msg c"
| "apply_op X DoShutdown c = Shutdown c"
| "apply_op X (DoSendPostHandler ps) c = sendPostHandler X ps c"
| "apply_op X (DoReceiveFuture f) c = map_option snd (receiveFuture f c)"

fun run :: "'cmd env \<Rightarrow> 'cmd op list \<Rightarrow> 'cmd Client \<Rightarrow> 'cmd Client option" where
  "run X [] c = Some c"
| "run X (a # as) c = (case apply_op X a c of None \<Rightarrow> None | Some c1 \<Rightarrow> run X as c1)"

text \<open>The response channels of the pending requests, in list order.\<close>

definition pending :: "'cmd Client \<Rightarrow> chan list" where
  "pending c = map (\<lambda>e. responseChan (snd e)) (requestList c)"

text \<open>A channel value that is not nil and whose buffer is empty.\<close>

definition unresolved :: "'cmd Client \<Rightarrow> chan \<Rightarrow> bool" where
  "unresolved c ch = (case ch of None \<Rightarrow> False | Some k \<Rightarrow> chans c k = None)"

text \<open>Every pending request has a response channel of its own that nobody has written yet.\<close>

definition pending_unresolved :: "'cmd Client \<Rightarrow> bool" where
  "pending_unresolved c = (distinct (pending c) \<and> list_all (unresolved c) (pending c))"

text \<open>
  The channel values that the client's data structures hold: those of the requests in
  the list, in the map and in the post queue.
\<close>

definition held_chans :: "'cmd Client \<Rightarrow> chan set" where
  "held_chans c =
     set (pending c) \<union>
     (\<lambda>e. responseChan (snd e)) ` ran (requestMap c) \<union>
     (\<lambda>d. responseChan (jsonRequest d)) ` set (sendPostChan c)"

text \<open>The channel that \<open>make\<close> allocates next is not yet held anywhere.\<close>

definition next_chan_unused :: "'cmd Client \<Rightarrow> bool" where
  "next_chan_unused c = (Some (chanNext c) \<notin> held_chans c)"

text \<open>
  Channel \<open>k\<close> has been allocated, its buffer is empty, and no request of the list,
  the map or the post queue holds it.
\<close>

definition unreachable :: "nat \<Rightarrow> 'cmd Client \<Rightarrow> bool" where
  "unreachable k c = (k < chanNext c \<and> chans c k = None \<and> Some k \<notin> held_chans c)"

section \<open>Concrete clients and messages\<close>

definition cfg_post :: ConnConfig where
  "cfg_post =
     \<lparr>Host = ''127.0.0.1:8332'', User = ''u'', Pass = ''p'', DisableTLS = True,
      HTTPPostMode = True\<rparr>"

definition cfg_ws :: ConnConfig where
  "cfg_ws = cfg_post\<lparr>HTTPPostMode := False\<rparr>"

definition reply7 :: string where
  \<open>reply7 = ''{"id":7,"result":"abc","error":null}''\<close>

definition reply7_error :: string where
  \<open>reply7_error = ''{"id":7,"result":"abc","error":{"code":1,"message":"boom"}}''\<close>

definition notification_foo :: string where
  \<open>notification_foo = ''{"id":null,"method":"foo","params":[]}''\<close>

definition reply_negative :: string where
  \<open>reply_negative = ''{"id":-7,"result":"abc","error":null}''\<close>

definition reply_fractional :: string where
  \<open>reply_fractional = ''{"id":7.5,"result":"abc","error":null}''\<close>

definition in_reply :: "float64 option \<Rightarrow> RPCError option \<Rightarrow> inMessage" where
  \<open>in_reply i e =
     \<lparr>ID = i, rawNotification = Some \<lparr>Method = [], Params = None\<rparr>,
      rawResponse = Some \<lparr>Result = Some ''"abc"'', Error = e\<rparr>\<rparr>\<close>

definition in_foo :: inMessage where
  \<open>in_foo =
     \<lparr>ID = None, rawNotification = Some \<lparr>Method = ''foo'', Params = Some []\<rparr>,
      rawResponse = Some \<lparr>Result = None, Error = None\<rparr>\<rparr>\<close>

text \<open>What \<open>json.Unmarshal\<close> gives on the messages above; anything else is not JSON.\<close>

definition decode0 :: "string \<Rightarrow> error + inMessage" where
  \<open>decode0 msg =
     (if msg = reply7 then Inr (in_reply (Some 7) None)
      else if msg = reply7_error then
        Inr (in_reply (Some 7) (Some \<lparr>Code = 1, Message = ''boom''\<rparr>))
      else if msg = reply_negative then Inr (in_reply (Some (- 7)) None)
      else if msg = reply_fractional then Inr (in_reply (Some (15 / 2)) None)
      else if msg = notification_foo then Inr in_foo
      else Inl (LibError ''invalid character''))\<close>

text \<open>
  An environment: the empty command has no method, every other command marshals to
  itself, every URL but that of the host \<open>%zz\<close> parses, and the server answers every request
  with status 502 and a body that is not JSON.
\<close>

definition X0 :: "string env" where
  \<open>X0 =
     \<lparr>CmdMethod = (\<lambda>s. if s = [] then Inl (LibError ''unregistered command'') else Inr s),
      MarshalCmd = (\<lambda>v i s. Inr s),
      NewRequestWithContext =
        (\<lambda>m u b. if u = ''http://%zz'' then Inl (LibError ''invalid URL escape'')
                  else Inr \<lparr>ReqMethod = m, URL = u, Body = b, Close = False,
                            ContentType = [], BasicAuth = None\<rparr>),
      Unmarshal_inMessage = decode0,
      Unmarshal_rawResponse = (\<lambda>b. Inl (LibError ''invalid character'')),
      Do = (\<lambda>r. ReadAll 502 ''Bad Gateway''),
      uint64_out_of_range = (\<lambda>x. 0)\<rparr>\<close>

definition req7 :: "string jsonRequest" where
  "req7 =
     \<lparr>jreq_id = 7, jreq_method = ''getblockcount'', cmd = ''getblockcount'',
      marshalledJSON = ''getblockcount'', responseChan = Some 0\<rparr>"

definition req8 :: "string jsonRequest" where
  "req8 = req7\<lparr>jreq_id := 8, responseChan := Some 1\<rparr>"

text \<open>A fresh client in HTTP POST mode, and one in the default mode.\<close>

definition client_post :: "string Client" where
  "client_post = New cfg_post"

definition client_ws :: "string Client" where
  "client_ws = New cfg_ws"

text \<open>A client whose next identifier is 7.\<close>

definition client_ws6 :: "string Client" where
  "client_ws6 = client_ws\<lparr>client_id := 6\<rparr>"

text \<open>A client with request 7 pending on channel 0 and request 8 pending on channel 1.\<close>

definition client78 :: "string Client" where
  "client78 =
     snd (addRequest req8 (snd (addRequest req7 (snd (make_chan (snd (make_chan client_ws)))))))"

text \<open>Request 7 as the post queue holds it.\<close>

definition details7 :: "string sendPostDetails" where
  "details7 =
     \<lparr>httpRequest =
        \<lparr>ReqMethod = ''POST'', URL = ''http://127.0.0.1:8332'', Body = ''getblockcount'',
         Close = True, ContentType = ''application/json'', BasicAuth = Some (''u'', ''p'')\<rparr>,
      jsonRequest = req7\<rparr>"

text \<open>A client in HTTP POST mode whose configured host does not parse.\<close>

definition client_badhost :: "string Client" where
  "client_badhost = New (cfg_post\<lparr>Host := ''%zz''\<rparr>)"

text \<open>
  What a caller receives from the future of a \<open>sendCmd\<close> call, when the call returns and
  the future holds a response.
\<close>

definition received :: "(chan \<times> 'cmd Client) option \<Rightarrow> (bytes \<times> error option) option" where
  "received r =
     (case r of
        None \<Rightarrow> None
      | Some (f, c) \<Rightarrow> map_option fst (receiveFuture f c))"

text \<open>The buffer of channel \<open>k\<close> after a run, when every operation of the run returns.\<close>

definition buffer_after :: "'cmd env \<Rightarrow> nat \<Rightarrow> 'cmd op list \<Rightarrow> 'cmd Client \<Rightarrow> response option option" where
  "buffer_after X k ops c = map_option (\<lambda>c'. chans c' k) (run X ops c)"

text \<open>The default-mode client after \<open>sendCmd\<close> has issued identifier 7 with future 0.\<close>

definition client_sent7 :: "string Client" where
  "client_sent7 = client_ws\<lparr>client_id := 7, chanNext := 1\<rparr>"

text \<open>The HTTP POST client after \<open>Shutdown\<close>.\<close>

definition client_down :: "string Client" where
  "client_down = client_post\<lparr>shutdown := True\<rparr>"



section \<open>Verified properties\<close>

subsection \<open>Evaluation of the concrete clients and messages\<close>

lemmas msg_defs =
  reply7_def reply7_error_def notification_foo_def reply_negative_def reply_fractional_def

lemma decode0_simps:
  "decode0 reply7 = Inr (in_reply (Some 7) None)"
  "decode0 reply7_error = Inr (in_reply (Some 7) (Some \<lparr>Code = 1, Message = ''boom''\<rparr>))"
  "decode0 reply_negative = Inr (in_reply (Some (- 7)) None)"
  "decode0 reply_fractional = Inr (in_reply (Some (15 / 2)) None)"
  "decode0 notification_foo = Inr in_foo"
  "decode0 ''not json'' = Inl (LibError ''invalid character'')"
  by (simp_all add: decode0_def msg_defs)

lemma X0_simps:
  "CmdMethod X0 ''getblockcount'' = Inr ''getblockcount''"
  "CmdMethod X0 [] = Inl (LibError ''unregistered command'')"
  "MarshalCmd X0 v i s = Inr s"
  "Unmarshal_inMessage X0 = decode0"
  "Unmarshal_rawResponse X0 b = Inl (LibError ''invalid character'')"
  "Do X0 r = ReadAll 502 ''Bad Gateway''"
  by (simp_all add: X0_def)

lemma client78_eq:
  "client78 =
     \<lparr>client_id = 0, config = cfg_ws,
      requestMap = [7 \<mapsto> (0, req7), 8 \<mapsto> (1, req8)],
      requestList = [(0, req7), (1, req8)], elemNext = 2, sendPostChan = [],
      shutdown = False, chans = (\<lambda>k. None), chanNext = 2\<rparr>"
  by (simp add: client78_def client_ws_def New_def addRequest_def make_chan_def Let_def
      req7_def req8_def fun_upd_idem)

subsection \<open>Identifiers\<close>

lemma unat_add_of_nat:
  fixes a :: "64 word"
  assumes "unat a + m < 2 ^ 64"
  shows "unat (a + of_nat m) = unat a + m"
proof -
  have m: "unat (of_nat m :: 64 word) = m"
    using assms by (simp add: unat_of_nat)
  have "unat a + unat (of_nat m :: 64 word) < 2 ^ LENGTH(64)"
    using assms m by simp
  then have "unat (a + of_nat m) = unat a + unat (of_nat m :: 64 word)"
    by (rule iffD1[OF unat_add_lem])
  with m show ?thesis by simp
qed

lemma NextIDs_fst:
  "fst (NextIDs n c) = map (\<lambda>k. client_id c + of_nat (Suc k)) [0..<n]"
proof (induction n arbitrary: c)
  case 0
  show ?case by simp
next
  case (Suc n)
  have "fst (NextIDs (Suc n) c) =
      (client_id c + 1) # fst (NextIDs n (c\<lparr>client_id := client_id c + 1\<rparr>))"
    by (simp add: NextID_def split: prod.splits)
  also have "\<dots> = (client_id c + 1) # map (\<lambda>k. client_id c + 1 + of_nat (Suc k)) [0..<n]"
    by (simp add: Suc.IH)
  also have "\<dots> = map (\<lambda>k. client_id c + of_nat (Suc k)) [0..<Suc n]"
    by (simp add: upt_rec[of 0] map_Suc_upt[symmetric] add.assoc del: upt_Suc)
  finally show ?case .
qed

text \<open>
  C8. \<open>NextID\<close> increments the client's counter and returns the new value; as long as the
  counter does not wrap around at \<open>2^64\<close>, the identifiers returned by successive calls are
  strictly increasing, so none is returned twice.
\<close>

theorem NextID_strictly_increasing:
  "fst (NextID c) = client_id c + 1 \<and>
   client_id (snd (NextID c)) = client_id c + 1 \<and>
   (unat (client_id c) + n < 2 ^ 64 \<longrightarrow>
      sorted_wrt (<) (fst (NextIDs n c)) \<and> distinct (fst (NextIDs n c)))"
proof (intro conjI impI)
  show "fst (NextID c) = client_id c + 1" by (simp add: NextID_def)
  show "client_id (snd (NextID c)) = client_id c + 1" by (simp add: NextID_def)
next
  assume b: "unat (client_id c) + n < 2 ^ 64"
  have lt: "client_id c + of_nat (Suc j) < client_id c + of_nat (Suc k)"
    if "j < k" "k < n" for j k
  proof -
    have "unat (client_id c + of_nat (Suc j)) = unat (client_id c) + Suc j"
      using b that by (intro unat_add_of_nat) simp
    moreover have "unat (client_id c + of_nat (Suc k)) = unat (client_id c) + Suc k"
      using b that by (intro unat_add_of_nat) simp
    ultimately show ?thesis using that by (simp add: word_less_nat_alt)
  qed
  show s: "sorted_wrt (<) (fst (NextIDs n c))"
    unfolding NextIDs_fst sorted_wrt_map
  proof (rule sorted_wrt_mono_rel[OF _ sorted_wrt_upt])
    fix x y assume "x \<in> set [0..<n]" "y \<in> set [0..<n]" "x < y"
    then show "client_id c + of_nat (Suc x) < client_id c + of_nat (Suc y)"
      by (intro lt) simp_all
  qed
  show "distinct (fst (NextIDs n c))"
    using s strict_sorted_iff[of "fst (NextIDs n c)"] by blast
qed

theorem NextID_strictly_increasing_witness:
  "unat (client_id client_ws6) + 3 < 2 ^ 64 \<and>
   fst (NextID client_ws6) = 7 \<and>
   fst (NextIDs 3 client_ws6) = [7, 8, 9] \<and>
   sorted_wrt (<) (fst (NextIDs 3 client_ws6)) \<and> distinct (fst (NextIDs 3 client_ws6))"
proof -
  have i: "client_id client_ws6 = 6" by (simp add: client_ws6_def)
  have h: "unat (client_id client_ws6) + 3 < 2 ^ 64" by (simp add: i)
  have e: "fst (NextIDs 3 client_ws6) = [7, 8, 9]"
    by (simp add: numeral_3_eq_3 NextID_def i)
  show ?thesis
    using NextID_strictly_increasing[of client_ws6 3] h e i by simp
qed

subsection \<open>The registry\<close>

text \<open>
  C5. \<open>addRequest\<close> returns \<open>ErrClientShutdown\<close> and leaves the client (the registry
  included) unchanged when the shutdown channel is closed; otherwise it returns no error,
  appends the request to the list and indexes it in the map under its identifier, leaving
  every other key of the map and the shutdown state as they were.
\<close>

theorem addRequest_registers:
  "(shutdown c \<longrightarrow> addRequest jReq c = (Some ErrClientShutdown, c)) \<and>
   (\<not> shutdown c \<longrightarrow>
      fst (addRequest jReq c) = None \<and>
      requestList (snd (addRequest jReq c)) = requestList c @ [(elemNext c, jReq)] \<and>
      requestMap (snd (addRequest jReq c)) (jreq_id jReq) = Some (elemNext c, jReq) \<and>
      (\<forall>i. i \<noteq> jreq_id jReq \<longrightarrow>
         requestMap (snd (addRequest jReq c)) i = requestMap c i) \<and>
      shutdown (snd (addRequest jReq c)) = shutdown c \<and>
      chans (snd (addRequest jReq c)) = chans c \<and>
      sendPostChan (snd (addRequest jReq c)) = sendPostChan c)"
  by (simp add: addRequest_def Let_def)

theorem addRequest_registers_witness:
  "shutdown (client_ws\<lparr>shutdown := True\<rparr>) \<and>
   addRequest req7 (client_ws\<lparr>shutdown := True\<rparr>) =
     (Some ErrClientShutdown, client_ws\<lparr>shutdown := True\<rparr>) \<and>
   \<not> shutdown client_ws \<and>
   fst (addRequest req7 client_ws) = None \<and>
   requestList (snd (addRequest req7 client_ws)) = [(0, req7)] \<and>
   requestMap (snd (addRequest req7 client_ws)) 7 = Some (0, req7) \<and>
   requestMap (snd (addRequest req7 client_ws)) 8 = None"
proof -
  have a: "\<not> shutdown client_ws" "requestList client_ws = []" "elemNext client_ws = 0"
    "requestMap client_ws 8 = None" "jreq_id req7 = 7"
    by (simp_all add: client_ws_def New_def req7_def)
  show ?thesis
    using addRequest_registers[of "client_ws\<lparr>shutdown := True\<rparr>" req7]
      addRequest_registers[of client_ws req7] a
    by simp
qed

subsection \<open>The message decoder\<close>

lemma Trunc_integral: "0 \<le> x \<Longrightarrow> frac x = 0 \<Longrightarrow> x = Trunc x"
  by (simp add: Trunc_def frac_def)

lemma not_Trunc: "frac x \<noteq> 0 \<Longrightarrow> x \<noteq> Trunc x"
proof
  assume f: "frac x \<noteq> 0" and t: "x = Trunc x"
  have "Trunc x \<in> \<int>" by (simp add: Trunc_def)
  with t have "x \<in> \<int>" by simp
  with f show False by simp
qed

text \<open>
  A reply whose identifier passes the checks and matches a registered request with an
  unresolved channel: the entry leaves the map and the list, and the channel receives
  what \<open>rawResponse.result\<close> extracts.
\<close>

lemma handleMessage_delivers:
  assumes "Unmarshal_inMessage X msg = Inr inm" "ID inm = Some x" "0 \<le> x" "frac x = 0"
    and "rawResponse inm = Some r"
    and "requestMap c (uint64 X x) = Some el" "responseChan (snd el) = Some k"
    and "chans c k = None"
  shows "handleMessage X msg c =
     Some (c\<lparr>requestMap := (requestMap c)(uint64 X x := None),
             requestList := list_Remove el (requestList c),
             chans := (chans c)(k \<mapsto> \<lparr>result = fst (rawResponse_result r),
                                          err = snd (rawResponse_result r)\<rparr>)\<rparr>)"
proof -
  have t: "\<not> (x < 0 \<or> x \<noteq> Trunc x)"
    using assms(3,4) Trunc_integral[of x] by auto
  have rm: "removeRequest (uint64 X x) c =
      (Some (snd el), c\<lparr>requestMap := (requestMap c)(uint64 X x := None),
                         requestList := list_Remove el (requestList c)\<rparr>)"
    using assms(6) by (simp add: removeRequest_def)
  show ?thesis
    unfolding handleMessage_def
    using assms(1,2,5,7,8) t
    by (simp add: rm chan_send_def split: prod.splits)
qed

text \<open>
  C6. \<open>handleMessage\<close> returns with the client unchanged (registry and every response
  channel as before) on a payload that does not decode, on every message with a null
  identifier (so in particular on notifications with an empty method or without
  parameters), and on a message whose identifier is negative or has a fractional part.
\<close>

theorem handleMessage_drops_malformed:
  "(Unmarshal_inMessage X msg = Inl e \<longrightarrow> handleMessage X msg c = Some c) \<and>
   (Unmarshal_inMessage X msg = Inr inm \<and> ID inm = None \<longrightarrow>
      handleMessage X msg c = Some c) \<and>
   (Unmarshal_inMessage X msg = Inr inm \<and> ID inm = Some x \<and> (x < 0 \<or> frac x \<noteq> 0) \<longrightarrow>
      handleMessage X msg c = Some c)"
proof (intro conjI impI)
  assume "Unmarshal_inMessage X msg = Inl e"
  then show "handleMessage X msg c = Some c" by (simp add: handleMessage_def)
next
  assume "Unmarshal_inMessage X msg = Inr inm \<and> ID inm = None"
  then show "handleMessage X msg c = Some c"
    by (simp add: handleMessage_def split: option.splits)
next
  assume a: "Unmarshal_inMessage X msg = Inr inm \<and> ID inm = Some x \<and> (x < 0 \<or> frac x \<noteq> 0)"
  then have "x < 0 \<or> x \<noteq> Trunc x"
    using not_Trunc[of x] by blast
  with a show "handleMessage X msg c = Some c"
    by (simp add: handleMessage_def)
qed

theorem handleMessage_drops_malformed_witness:
  "Unmarshal_inMessage X0 ''not json'' = Inl (LibError ''invalid character'') \<and>
   handleMessage X0 ''not json'' client78 = Some client78 \<and>
   Unmarshal_inMessage X0 notification_foo = Inr in_foo \<and> ID in_foo = None \<and>
   handleMessage X0 notification_foo client78 = Some client78 \<and>
   Unmarshal_inMessage X0 reply_negative = Inr (in_reply (Some (- 7)) None) \<and>
   handleMessage X0 reply_negative client78 = Some client78 \<and>
   Unmarshal_inMessage X0 reply_fractional = Inr (in_reply (Some (15 / 2)) None) \<and>
   frac (15 / 2 :: rat) \<noteq> 0 \<and>
   handleMessage X0 reply_fractional client78 = Some client78 \<and>
   requestMap client78 7 = Some (0, req7) \<and> chans client78 0 = None"
proof -
  have "\<lfloor>15 / 2 :: rat\<rfloor> = 7" by (rule floor_unique) simp_all
  then have f: "frac (15 / 2 :: rat) \<noteq> 0" by (simp add: frac_def)
  have c: "requestMap client78 7 = Some (0, req7) \<and> chans client78 0 = None"
    by (simp add: client78_eq)
  show ?thesis
    using handleMessage_drops_malformed[of X0 "''not json''" "LibError ''invalid character''" client78]
      handleMessage_drops_malformed[of X0 notification_foo _ client78 in_foo]
      handleMessage_drops_malformed[of X0 reply_negative _ client78
        "in_reply (Some (- 7)) None" "- 7"]
      handleMessage_drops_malformed[of X0 reply_fractional _ client78
        "in_reply (Some (15 / 2)) None" "15 / 2"]
      f c
    by (simp add: X0_simps decode0_simps in_reply_def in_foo_def)
qed

text \<open>
  C7. \<open>rawResponse.result\<close> returns nil and the structured error when the error field is
  not nil, and the raw result bytes and no error otherwise; so a reply that carries a
  non-null error (whatever its result field holds) and matches a pending request with an
  unresolved channel resolves that channel to the structured error, with a nil result.
\<close>

theorem error_takes_precedence:
  "(Error r = Some e \<longrightarrow> rawResponse_result r = (None, Some (RPCErr e))) \<and>
   (Error r = None \<longrightarrow> rawResponse_result r = (Result r, None)) \<and>
   (Unmarshal_inMessage X msg = Inr inm \<and> ID inm = Some x \<and> 0 \<le> x \<and> frac x = 0 \<and>
    rawResponse inm = Some r \<and> Error r = Some e \<and>
    requestMap c (uint64 X x) = Some el \<and> responseChan (snd el) = Some k \<and>
    chans c k = None \<longrightarrow>
      (\<exists>c'. handleMessage X msg c = Some c' \<and>
            chans c' k = Some \<lparr>result = None, err = Some (RPCErr e)\<rparr> \<and>
            receiveFuture (Some k) c' = Some ((None, Some (RPCErr e)), c'\<lparr>chans := (chans c')(k := None)\<rparr>)))"
proof (intro conjI impI)
  show "rawResponse_result r = (None, Some (RPCErr e))" if "Error r = Some e"
    using that by (simp add: rawResponse_result_def)
  show "rawResponse_result r = (Result r, None)" if "Error r = None"
    using that by (simp add: rawResponse_result_def)
next
  assume a: "Unmarshal_inMessage X msg = Inr inm \<and> ID inm = Some x \<and> 0 \<le> x \<and> frac x = 0 \<and>
    rawResponse inm = Some r \<and> Error r = Some e \<and>
    requestMap c (uint64 X x) = Some el \<and> responseChan (snd el) = Some k \<and>
    chans c k = None"
  then have "handleMessage X msg c =
     Some (c\<lparr>requestMap := (requestMap c)(uint64 X x := None),
             requestList := list_Remove el (requestList c),
             chans := (chans c)(k \<mapsto> \<lparr>result = fst (rawResponse_result r),
                                          err = snd (rawResponse_result r)\<rparr>)\<rparr>)"
    using handleMessage_delivers[of X msg inm x r c el k] by blast
  moreover have "rawResponse_result r = (None, Some (RPCErr e))"
    using a by (simp add: rawResponse_result_def)
  ultimately show "\<exists>c'. handleMessage X msg c = Some c' \<and>
            chans c' k = Some \<lparr>result = None, err = Some (RPCErr e)\<rparr> \<and>
            receiveFuture (Some k) c' = Some ((None, Some (RPCErr e)), c'\<lparr>chans := (chans c')(k := None)\<rparr>)"
    by (simp add: receiveFuture_def)
qed

lemma uint64_7: "uint64 X 7 = 7"
  by (simp add: uint64_def)

theorem error_takes_precedence_witness:
  "Unmarshal_inMessage X0 reply7_error =
     Inr (in_reply (Some 7) (Some \<lparr>Code = 1, Message = ''boom''\<rparr>)) \<and>
   requestMap client78 (uint64 X0 7) = Some (0, req7) \<and> responseChan req7 = Some 0 \<and>
   chans client78 0 = None \<and>
   map_option (\<lambda>c. chans c 0) (handleMessage X0 reply7_error client78) =
     Some (Some \<lparr>result = None, err = Some (RPCErr \<lparr>Code = 1, Message = ''boom''\<rparr>)\<rparr>) \<and>
   rawResponse_result \<lparr>Result = Some ''abc'', Error = None\<rparr> = (Some ''abc'', None)"
proof -
  have c: "requestMap client78 (uint64 X0 7) = Some (0, req7)" "chans client78 0 = None"
    "responseChan req7 = Some 0"
    by (simp_all add: client78_eq uint64_7 req7_def)
  have f: "frac (7 :: rat) = 0" by simp
  show ?thesis
    using error_takes_precedence[of \<open>\<lparr>Result = Some ''"abc"'', Error = Some \<lparr>Code = 1, Message = ''boom''\<rparr>\<rparr>\<close>
        "\<lparr>Code = 1, Message = ''boom''\<rparr>" X0 reply7_error
        "in_reply (Some 7) (Some \<lparr>Code = 1, Message = ''boom''\<rparr>)" 7 client78 "(0, req7)" 0]
      error_takes_precedence[of "\<lparr>Result = Some ''abc'', Error = None\<rparr>"]
      c f
    by (auto simp add: X0_simps decode0_simps in_reply_def)
qed

subsection \<open>Shutdown\<close>

lemma chan_send_unresolved:
  "chans c k = None \<Longrightarrow> chan_send (Some k) r c = Some (c\<lparr>chans := (chans c)(k \<mapsto> r)\<rparr>)"
  by (simp add: chan_send_def)

text \<open>
  The loop of \<open>Shutdown\<close> over a list of elements with pairwise distinct, unresolved
  channels writes the shutdown response into each of them and into nothing else.
\<close>

lemma deliverShutdown_unresolved:
  assumes "distinct (map (\<lambda>e. responseChan (snd e)) es)"
    and "list_all (unresolved c) (map (\<lambda>e. responseChan (snd e)) es)"
  shows "deliverShutdown es c =
     Some (c\<lparr>chans := (\<lambda>k. if Some k \<in> set (map (\<lambda>e. responseChan (snd e)) es)
                              then Some \<lparr>result = None, err = Some ErrClientShutdown\<rparr>
                              else chans c k)\<rparr>)"
  using assms
proof (induction es arbitrary: c)
  case Nil
  show ?case by simp
next
  case (Cons e es)
  from Cons.prems(2) obtain k where k: "responseChan (snd e) = Some k" "chans c k = None"
    by (auto simp add: unresolved_def split: option.splits)
  let ?r = "\<lparr>result = None, err = Some ErrClientShutdown\<rparr>"
  let ?c1 = "c\<lparr>chans := (chans c)(k \<mapsto> ?r)\<rparr>"
  have notin: "Some k \<notin> set (map (\<lambda>e. responseChan (snd e)) es)"
    using Cons.prems(1) k by auto
  have d: "distinct (map (\<lambda>e. responseChan (snd e)) es)"
    using Cons.prems(1) by simp
  have ne: "responseChan (snd e') \<noteq> Some k" if "e' \<in> set es" for e'
    using notin that by force
  have u: "list_all (unresolved ?c1) (map (\<lambda>e. responseChan (snd e)) es)"
    using Cons.prems(2) ne
    by (auto simp add: list_all_iff unresolved_def split: option.splits)
  have "deliverShutdown (e # es) c = deliverShutdown es ?c1"
    using k by (simp add: chan_send_unresolved)
  also have "\<dots> = Some (?c1\<lparr>chans := (\<lambda>j. if Some j \<in> set (map (\<lambda>e. responseChan (snd e)) es)
                              then Some ?r else chans ?c1 j)\<rparr>)"
    by (rule Cons.IH[OF d u])
  also have "\<dots> = Some (c\<lparr>chans := (\<lambda>j. if Some j \<in> set (map (\<lambda>e. responseChan (snd e)) (e # es))
                              then Some ?r else chans c j)\<rparr>)"
    using k by (auto simp add: fun_eq_iff)
  finally show ?case .
qed

text \<open>
  C3. On a client that is not shut down, whose pending requests each have an unresolved
  response channel of their own, \<open>Shutdown\<close> returns; it closes the shutdown channel,
  leaves exactly one \<open>ErrClientShutdown\<close> response in the channel of every pending
  request and touches no other channel, and empties the map and the list. On a client
  that is already shut down (so on every later call) \<open>Shutdown\<close> returns the client
  unchanged.
\<close>

theorem Shutdown_drains_once:
  "(\<not> shutdown c \<and> pending_unresolved c \<longrightarrow>
      Shutdown c =
        Some (c\<lparr>shutdown := True,
                chans := (\<lambda>k. if Some k \<in> set (pending c)
                               then Some \<lparr>result = None, err = Some ErrClientShutdown\<rparr>
                               else chans c k),
                requestMap := Map.empty, requestList := []\<rparr>)) \<and>
   (shutdown c \<longrightarrow> Shutdown c = Some c)"
proof (intro conjI impI)
  assume a: "\<not> shutdown c \<and> pending_unresolved c"
  let ?c1 = "c\<lparr>shutdown := True\<rparr>"
  have d: "doShutdown c = (True, ?c1)" using a by (simp add: doShutdown_def)
  have sel: "requestList ?c1 = requestList c" "chans ?c1 = chans c" by simp_all
  have "deliverShutdown (requestList ?c1) ?c1 =
     Some (?c1\<lparr>chans := (\<lambda>k. if Some k \<in> set (map (\<lambda>e. responseChan (snd e)) (requestList ?c1))
                              then Some \<lparr>result = None, err = Some ErrClientShutdown\<rparr>
                              else chans ?c1 k)\<rparr>)"
    using a
    by (intro deliverShutdown_unresolved)
       (auto simp add: pending_unresolved_def pending_def unresolved_def list_all_iff
          split: option.splits)
  then have "deliverShutdown (requestList c) ?c1 =
     Some (?c1\<lparr>chans := (\<lambda>k. if Some k \<in> set (pending c)
                              then Some \<lparr>result = None, err = Some ErrClientShutdown\<rparr>
                              else chans c k)\<rparr>)"
    unfolding sel pending_def .
  then show "Shutdown c =
        Some (c\<lparr>shutdown := True,
                chans := (\<lambda>k. if Some k \<in> set (pending c)
                               then Some \<lparr>result = None, err = Some ErrClientShutdown\<rparr>
                               else chans c k),
                requestMap := Map.empty, requestList := []\<rparr>)"
    by (simp add: Shutdown_def d removeAllRequests_def pending_def)
next
  assume "shutdown c"
  then show "Shutdown c = Some c" by (simp add: Shutdown_def doShutdown_def)
qed

theorem Shutdown_drains_once_witness:
  "\<not> shutdown client78 \<and> pending_unresolved client78 \<and>
   pending client78 = [Some 0, Some 1] \<and>
   map_option shutdown (Shutdown client78) = Some True \<and>
   map_option requestList (Shutdown client78) = Some [] \<and>
   map_option (\<lambda>c. requestMap c 7) (Shutdown client78) = Some None \<and>
   map_option (\<lambda>c. chans c 0) (Shutdown client78) =
     Some (Some \<lparr>result = None, err = Some ErrClientShutdown\<rparr>) \<and>
   map_option (\<lambda>c. chans c 1) (Shutdown client78) =
     Some (Some \<lparr>result = None, err = Some ErrClientShutdown\<rparr>) \<and>
   map_option (\<lambda>c. chans c 2) (Shutdown client78) = Some None \<and>
   shutdown (client78\<lparr>shutdown := True\<rparr>) \<and>
   Shutdown (client78\<lparr>shutdown := True\<rparr>) = Some (client78\<lparr>shutdown := True\<rparr>)"
proof -
  have p: "pending client78 = [Some 0, Some 1]"
    by (simp add: client78_eq pending_def req7_def req8_def)
  have u: "pending_unresolved client78"
    by (simp add: pending_unresolved_def p unresolved_def) (simp add: client78_eq)
  have s: "\<not> shutdown client78" "chans client78 2 = None" by (simp_all add: client78_eq)
  show ?thesis
    using Shutdown_drains_once[of client78] Shutdown_drains_once[of "client78\<lparr>shutdown := True\<rparr>"]
      p u s
    by simp
qed

subsection \<open>The HTTP POST send path\<close>

text \<open>
  C9. For a request with an unresolved response channel, every failure of the HTTP POST
  path ends in a normal return with the error stored in that request's response and a
  nil result, and with no other change to the client: a request that cannot be built
  (\<open>sendPost\<close>), a round trip that fails, a body that cannot be read, and a body that is
  not a JSON-RPC response; in the last case the error is built from the HTTP status code
  and the raw response bytes.
\<close>

theorem post_failures_delivered:
  "responseChan (jsonRequest details) = Some k \<and> chans c k = None \<longrightarrow>
   (Do X (httpRequest details) = DoFailed e \<longrightarrow>
      handleSendPostMessage X details c =
        Some (c\<lparr>chans := (chans c)(k \<mapsto> \<lparr>result = None, err = Some e\<rparr>)\<rparr>)) \<and>
   (Do X (httpRequest details) = ReadFailed status e \<longrightarrow>
      handleSendPostMessage X details c =
        Some (c\<lparr>chans := (chans c)(k \<mapsto>
                \<lparr>result = None,
                 err = Some (Errorf ''error reading json reply: %v'' [ArgErr e])\<rparr>)\<rparr>)) \<and>
   (Do X (httpRequest details) = ReadAll status respBytes \<and>
    Unmarshal_rawResponse X respBytes = Inl e \<longrightarrow>
      handleSendPostMessage X details c =
        Some (c\<lparr>chans := (chans c)(k \<mapsto>
                \<lparr>result = None,
                 err = Some (Errorf ''status code: %d, response: %q''
                               [ArgInt status, ArgStr respBytes])\<rparr>)\<rparr>)) \<and>
   (NewRequestWithContext X ''POST''
        ((if \<not> DisableTLS (config c) then ''https'' else ''http'') @ ''://'' @ Host (config c))
        (marshalledJSON (jsonRequest details)) = Inl e \<longrightarrow>
      sendPost X (jsonRequest details) c =
        Some (c\<lparr>chans := (chans c)(k \<mapsto> \<lparr>result = None, err = Some e\<rparr>)\<rparr>))"
  by (simp add: handleSendPostMessage_def sendPost_def chan_send_def Let_def)

theorem post_failures_delivered_witness:
  "responseChan (jsonRequest details7) = Some 0 \<and> chans client_post 0 = None \<and>
   Do X0 (httpRequest details7) = ReadAll 502 ''Bad Gateway'' \<and>
   Unmarshal_rawResponse X0 ''Bad Gateway'' = Inl (LibError ''invalid character'') \<and>
   handleSendPostMessage X0 details7 client_post =
     Some (client_post\<lparr>chans := (chans client_post)(0 \<mapsto>
             \<lparr>result = None,
              err = Some (Errorf ''status code: %d, response: %q''
                            [ArgInt 502, ArgStr ''Bad Gateway''])\<rparr>)\<rparr>) \<and>
   handleSendPostMessage (X0\<lparr>Do := \<lambda>r. DoFailed (LibError ''connection refused'')\<rparr>)
       details7 client_post =
     Some (client_post\<lparr>chans := (chans client_post)(0 \<mapsto>
             \<lparr>result = None, err = Some (LibError ''connection refused'')\<rparr>)\<rparr>) \<and>
   handleSendPostMessage (X0\<lparr>Do := \<lambda>r. ReadFailed 200 (LibError ''unexpected EOF'')\<rparr>)
       details7 client_post =
     Some (client_post\<lparr>chans := (chans client_post)(0 \<mapsto>
             \<lparr>result = None,
              err = Some (Errorf ''error reading json reply: %v''
                            [ArgErr (LibError ''unexpected EOF'')])\<rparr>)\<rparr>) \<and>
   sendPost X0 (jsonRequest details7) client_badhost =
     Some (client_badhost\<lparr>chans := (chans client_badhost)(0 \<mapsto>
             \<lparr>result = None, err = Some (LibError ''invalid URL escape'')\<rparr>)\<rparr>)"
proof -
  have a: "responseChan (jsonRequest details7) = Some 0" "chans client_post 0 = None"
    "chans client_badhost 0 = None"
    by (simp_all add: details7_def req7_def client_post_def client_badhost_def New_def)
  have n: "NewRequestWithContext X0 ''POST''
        ((if \<not> DisableTLS (config client_badhost) then ''https'' else ''http'') @ ''://'' @
         Host (config client_badhost))
        (marshalledJSON (jsonRequest details7)) = Inl (LibError ''invalid URL escape'')"
    by (simp add: X0_def client_badhost_def New_def cfg_post_def)
  show ?thesis
    using post_failures_delivered[where details = details7 and k = 0 and c = client_post
        and X = X0 and status = 502 and respBytes = "''Bad Gateway''"
        and e = "LibError ''invalid character''"]
      post_failures_delivered[where details = details7 and k = 0 and c = client_post
        and X = "X0\<lparr>Do := \<lambda>r. DoFailed (LibError ''connection refused'')\<rparr>"
        and e = "LibError ''connection refused''"]
      post_failures_delivered[where details = details7 and k = 0 and c = client_post
        and X = "X0\<lparr>Do := \<lambda>r. ReadFailed 200 (LibError ''unexpected EOF'')\<rparr>"
        and e = "LibError ''unexpected EOF''" and status = 200]
      post_failures_delivered[where details = details7 and k = 0 and c = client_badhost
        and X = X0 and e = "LibError ''invalid URL escape''"]
      a n
    by (simp add: X0_simps)
qed

subsection \<open>Issuing commands\<close>

lemma chan_send_registry:
  "chan_send ch r c = Some c' \<Longrightarrow>
     requestMap c' = requestMap c \<and> requestList c' = requestList c \<and>
     shutdown c' = shutdown c \<and> sendPostChan c' = sendPostChan c \<and>
     chanNext c' = chanNext c \<and> client_id c' = client_id c \<and> config c' = config c"
  by (auto simp add: chan_send_def split: option.splits)

lemma post_send_registry:
  "post_send d c = Some c' \<Longrightarrow>
     requestMap c' = requestMap c \<and> requestList c' = requestList c \<and>
     shutdown c' = shutdown c \<and> chans c' = chans c \<and>
     chanNext c' = chanNext c \<and> client_id c' = client_id c \<and> config c' = config c"
  by (auto simp add: post_send_def split: if_splits)

lemma sendPostRequest_registry:
  "sendPostRequest hr jReq c = Some c' \<Longrightarrow>
     requestMap c' = requestMap c \<and> requestList c' = requestList c \<and>
     shutdown c' = shutdown c \<and> chanNext c' = chanNext c \<and> client_id c' = client_id c"
  unfolding sendPostRequest_def
  by (auto split: option.splits if_splits dest!: chan_send_registry post_send_registry)

lemma sendRequest_registry:
  "sendRequest X jReq c = Some c' \<Longrightarrow>
     requestMap c' = requestMap c \<and> requestList c' = requestList c \<and>
     shutdown c' = shutdown c \<and> chanNext c' = chanNext c \<and> client_id c' = client_id c"
  unfolding sendRequest_def sendPost_def Let_def
  by (auto split: if_splits sum.splits dest!: chan_send_registry sendPostRequest_registry)

lemma sendCmd_registry:
  "sendCmd X command c = Some (f, c') \<Longrightarrow>
     requestMap c' = requestMap c \<and> requestList c' = requestList c"
  unfolding sendCmd_def newFutureError_def NextID_def make_chan_def
  by (auto split: sum.splits option.splits dest!: sendRequest_registry)

lemma sendCmd_marshalled:
  assumes "CmdMethod X command = Inr m"
    and "MarshalCmd X ''1.0'' (client_id c + 1) command = Inr js"
  shows "sendCmd X command c =
     (case sendRequest X
             \<lparr>jreq_id = client_id c + 1, jreq_method = m, cmd = command,
              marshalledJSON = js, responseChan = Some (chanNext c)\<rparr>
             (c\<lparr>client_id := client_id c + 1,
                chans := (chans c)(chanNext c := None),
                chanNext := chanNext c + 1\<rparr>) of
        None \<Rightarrow> None
      | Some c3 \<Rightarrow> Some (Some (chanNext c), c3))"
  using assms by (simp add: sendCmd_def NextID_def make_chan_def split: option.splits)







subsection \<open>Commands after shutdown\<close>

lemma deliverShutdown_shutdown:
  "deliverShutdown es c = Some c' \<Longrightarrow> shutdown c' = shutdown c"
proof (induction es arbitrary: c)
  case Nil
  then show ?case by simp
next
  case (Cons e es)
  then show ?case
    by (auto split: option.splits dest!: chan_send_registry)
qed

text \<open>
  C4, as the code has it. \<open>Shutdown\<close> leaves the shutdown channel closed. On a client in
  HTTP POST mode whose shutdown channel is closed, \<open>sendCmd\<close> of a command whose method
  resolves, whose marshalling succeeds and whose HTTP request can be built returns,
  provided the post queue has room, a future that already carries \<open>ErrClientShutdown\<close>,
  and the registry is as before.
\<close>

theorem sendCmd_after_Shutdown:
  "(Shutdown c0 = Some c \<longrightarrow> shutdown c) \<and>
   (shutdown c \<and> HTTPPostMode (config c) \<and>
    CmdMethod X command = Inr m \<and>
    MarshalCmd X ''1.0'' (client_id c + 1) command = Inr js \<and>
    NewRequestWithContext X ''POST''
      ((if \<not> DisableTLS (config c) then ''https'' else ''http'') @ ''://'' @ Host (config c))
      js = Inr hr \<and>
    length (sendPostChan c) < sendPostBufferSize \<longrightarrow>
      (\<exists>c'. sendCmd X command c = Some (Some (chanNext c), c') \<and>
            chans c' (chanNext c) = Some \<lparr>result = None, err = Some ErrClientShutdown\<rparr> \<and>
            received (sendCmd X command c) = Some (None, Some ErrClientShutdown) \<and>
            requestMap c' = requestMap c \<and> requestList c' = requestList c))"
proof (intro conjI impI)
  assume "Shutdown c0 = Some c"
  then show "shutdown c"
    by (auto simp add: Shutdown_def doShutdown_def removeAllRequests_def
        split: if_splits option.splits dest!: deliverShutdown_shutdown)
next
  assume a: "shutdown c \<and> HTTPPostMode (config c) \<and>
    CmdMethod X command = Inr m \<and>
    MarshalCmd X ''1.0'' (client_id c + 1) command = Inr js \<and>
    NewRequestWithContext X ''POST''
      ((if \<not> DisableTLS (config c) then ''https'' else ''http'') @ ''://'' @ Host (config c))
      js = Inr hr \<and>
    length (sendPostChan c) < sendPostBufferSize"
  have "sendCmd X command c =
     (case sendRequest X
             \<lparr>jreq_id = client_id c + 1, jreq_method = m, cmd = command,
              marshalledJSON = js, responseChan = Some (chanNext c)\<rparr>
             (c\<lparr>client_id := client_id c + 1,
                chans := (chans c)(chanNext c := None),
                chanNext := chanNext c + 1\<rparr>) of
        None \<Rightarrow> None
      | Some c3 \<Rightarrow> Some (Some (chanNext c), c3))"
    using a by (intro sendCmd_marshalled) simp_all
  with a show "\<exists>c'. sendCmd X command c = Some (Some (chanNext c), c') \<and>
            chans c' (chanNext c) = Some \<lparr>result = None, err = Some ErrClientShutdown\<rparr> \<and>
            received (sendCmd X command c) = Some (None, Some ErrClientShutdown) \<and>
            requestMap c' = requestMap c \<and> requestList c' = requestList c"
    by (simp add: sendRequest_def sendPost_def sendPostRequest_def chan_send_def
        post_send_def received_def receiveFuture_def Let_def)
qed

theorem sendCmd_after_Shutdown_witness:
  "Shutdown client_post = Some client_down \<and> shutdown client_down \<and>
   HTTPPostMode (config client_down) \<and>
   CmdMethod X0 ''getblockcount'' = Inr ''getblockcount'' \<and>
   length (sendPostChan client_down) < sendPostBufferSize \<and>
   map_option fst (sendCmd X0 ''getblockcount'' client_down) = Some (Some 0) \<and>
   received (sendCmd X0 ''getblockcount'' client_down) = Some (None, Some ErrClientShutdown) \<and>
   map_option (\<lambda>r. requestList (snd r)) (sendCmd X0 ''getblockcount'' client_down) = Some []"
proof -
  have d: "Shutdown client_post = Some client_down"
    by (simp add: Shutdown_def doShutdown_def removeAllRequests_def client_down_def
        client_post_def New_def)
  have a: "shutdown client_down" "HTTPPostMode (config client_down)"
    "length (sendPostChan client_down) < sendPostBufferSize" "chanNext client_down = 0"
    "requestList client_down = []"
    by (simp_all add: client_down_def client_post_def New_def cfg_post_def
        sendPostBufferSize_def)
  have n: "NewRequestWithContext X0 ''POST''
      ((if \<not> DisableTLS (config client_down) then ''https'' else ''http'') @ ''://'' @
       Host (config client_down)) ''getblockcount'' =
     Inr \<lparr>ReqMethod = ''POST'', URL = ''http://127.0.0.1:8332'', Body = ''getblockcount'',
          Close = False, ContentType = [], BasicAuth = None\<rparr>"
    by (simp add: X0_def client_down_def client_post_def New_def cfg_post_def)
  show ?thesis
    using sendCmd_after_Shutdown[where ?c0.0 = client_post and c = client_down and X = X0
        and command = "''getblockcount''" and m = "''getblockcount''"
        and js = "''getblockcount''"
        and hr = "\<lparr>ReqMethod = ''POST'', URL = ''http://127.0.0.1:8332'',
                  Body = ''getblockcount'', Close = False, ContentType = [],
                  BasicAuth = None\<rparr>"]
      d a n
    by (auto simp add: X0_simps)
qed

text \<open>
  After \<open>Shutdown\<close>, \<open>sendCmd\<close> of a command without a method returns a future that
  carries the method error, not \<open>ErrClientShutdown\<close>. For a command that marshals, the
  handler's drain loop, run right after the call, delivers nothing for the queued
  request: it parks on the channel that the short-circuit has already filled.
\<close>

theorem sendCmd_after_Shutdown_unresolved_method:
  "Shutdown client_post = Some client_down \<and>
   HTTPPostMode (config client_down) \<and>
   CmdMethod X0 [] = Inl (LibError ''unregistered command'') \<and>
   received (sendCmd X0 [] client_down) = Some (None, Some (LibError ''unregistered command'')) \<and>
   received (sendCmd X0 ''getblockcount'' client_down) = Some (None, Some ErrClientShutdown) \<and>
   run X0 [DoSendCmd ''getblockcount'', DoSendPostHandler [RecvShutdown]] client_down = None"
proof -
  have d: "Shutdown client_post = Some client_down"
    by (simp add: Shutdown_def doShutdown_def removeAllRequests_def client_down_def
        client_post_def New_def)
  have a: "HTTPPostMode (config client_down)"
    by (simp add: client_down_def client_post_def New_def cfg_post_def)
  have r: "received (sendCmd X0 [] client_down) =
      Some (None, Some (LibError ''unregistered command''))"
    by (simp add: sendCmd_def X0_simps newFutureError_def make_chan_def received_def
        receiveFuture_def)
  have q: "received (sendCmd X0 ''getblockcount'' client_down) =
      Some (None, Some ErrClientShutdown) \<and>
    run X0 [DoSendCmd ''getblockcount'', DoSendPostHandler [RecvShutdown]] client_down = None"
    by (simp add: sendCmd_def X0_def NextID_def make_chan_def sendRequest_def sendPost_def
        sendPostRequest_def chan_send_def post_send_def sendPostBufferSize_def
        received_def receiveFuture_def client_down_def client_post_def New_def
        cfg_post_def Let_def)
  show ?thesis using d a r q by (simp add: X0_simps)
qed

subsection \<open>A second write after the shutdown short-circuit\<close>

text \<open>
  C2 fails on the code. After \<open>Shutdown\<close>, \<open>sendCmd\<close> in HTTP POST mode writes
  \<open>ErrClientShutdown\<close> to the new request's channel and still puts the request on the post
  queue. Once the caller has received that response, the post handler writes the same
  channel a second time: \<open>ErrClientShutdown\<close> again when its \<open>select\<close> takes the shutdown
  case and drains the queue, the outcome of the HTTP round trip when it takes the queued
  request first. While the first response is still in the buffer, the handler parks on
  the second send.
\<close>

theorem shutdown_short_circuit_second_write:
  "buffer_after X0 0 [DoShutdown, DoSendCmd ''getblockcount''] client_post =
     Some (Some \<lparr>result = None, err = Some ErrClientShutdown\<rparr>) \<and>
   buffer_after X0 0
     [DoShutdown, DoSendCmd ''getblockcount'', DoReceiveFuture (Some 0)] client_post =
     Some None \<and>
   buffer_after X0 0
     [DoShutdown, DoSendCmd ''getblockcount'', DoReceiveFuture (Some 0),
      DoSendPostHandler [RecvShutdown]] client_post =
     Some (Some \<lparr>result = None, err = Some ErrClientShutdown\<rparr>) \<and>
   buffer_after X0 0
     [DoShutdown, DoSendCmd ''getblockcount'', DoReceiveFuture (Some 0),
      DoSendPostHandler [RecvDetails, RecvShutdown]] client_post =
     Some (Some \<lparr>result = None,
                 err = Some (Errorf ''status code: %d, response: %q''
                               [ArgInt 502, ArgStr ''Bad Gateway''])\<rparr>) \<and>
   run X0 [DoShutdown, DoSendCmd ''getblockcount'', DoSendPostHandler [RecvShutdown]]
     client_post = None"
  by (simp add: buffer_after_def Shutdown_def doShutdown_def removeAllRequests_def
      sendCmd_def X0_def NextID_def make_chan_def sendRequest_def sendPost_def
      sendPostRequest_def chan_send_def post_send_def sendPostBufferSize_def
      receiveFuture_def handleSendPostMessage_def client_post_def New_def cfg_post_def
      Let_def)

subsection \<open>A future nobody holds\<close>

lemma chan_send_unreachable:
  assumes "chan_send ch r c = Some c'" "ch \<noteq> Some k" "unreachable k c"
  shows "unreachable k c'"
proof -
  from assms(1) obtain j where j: "ch = Some j" "c' = c\<lparr>chans := (chans c)(j \<mapsto> r)\<rparr>"
    by (auto simp add: chan_send_def split: option.splits)
  have "j \<noteq> k" using assms(2) j by simp
  then show ?thesis
    using assms(3) j by (simp add: unreachable_def held_chans_def pending_def)
qed

lemma held_not_unreachable:
  "ch \<in> held_chans c \<Longrightarrow> unreachable k c \<Longrightarrow> ch \<noteq> Some k"
  by (auto simp add: unreachable_def)

lemma chan_send_held:
  "chan_send ch r c = Some c' \<Longrightarrow> held_chans c' = held_chans c"
  by (auto simp add: chan_send_def held_chans_def pending_def split: option.splits)

lemma removeRequest_unreachable:
  assumes "removeRequest i c = (req, c')" "unreachable k c"
  shows "unreachable k c' \<and> held_chans c' \<subseteq> held_chans c \<and>
         (\<forall>rq. req = Some rq \<longrightarrow> responseChan rq \<in> held_chans c)"
proof (cases "requestMap c i")
  case None
  then show ?thesis using assms by (simp add: removeRequest_def)
next
  case (Some el)
  then have c': "c' = c\<lparr>requestMap := (requestMap c)(i := None),
                        requestList := list_Remove el (requestList c)\<rparr>"
    and req: "req = Some (snd el)"
    using assms(1) by (simp_all add: removeRequest_def)
  have ran: "ran ((requestMap c)(i := None)) \<subseteq> ran (requestMap c)"
    by (auto simp add: ran_def split: if_splits)
  have sub: "held_chans c' \<subseteq> held_chans c"
    using ran by (auto simp add: c' held_chans_def pending_def list_Remove_def)
  have "el \<in> ran (requestMap c)" using Some by (auto simp add: ran_def)
  then have h: "responseChan (snd el) \<in> held_chans c"
    by (auto simp add: held_chans_def)
  have "unreachable k c'"
    using assms(2) sub by (auto simp add: unreachable_def c')
  with sub h req show ?thesis by simp
qed

lemma handleMessage_cases:
  assumes "handleMessage X msg c = Some c'"
  shows "c' = c \<or>
     (\<exists>i req c1. removeRequest i c = (req, c1) \<and>
        (c' = c1 \<or>
         (\<exists>rq j r. req = Some rq \<and> responseChan rq = Some j \<and>
                   chan_send (Some j) r c1 = Some c')))"
  using assms unfolding handleMessage_def
  by (fastforce split: sum.splits option.splits if_splits prod.splits)

lemma handleMessage_unreachable:
  assumes "handleMessage X msg c = Some c'" "unreachable k c"
  shows "unreachable k c'"
proof -
  from handleMessage_cases[OF assms(1)] consider
    (same) "c' = c"
    | (removed) i req c1 where "removeRequest i c = (req, c1)" "c' = c1"
    | (delivered) i rq c1 j r where "removeRequest i c = (Some rq, c1)"
        "responseChan rq = Some j" "chan_send (Some j) r c1 = Some c'"
    by blast
  then show ?thesis
  proof cases
    case same
    then show ?thesis using assms(2) by simp
  next
    case removed
    then show ?thesis using removeRequest_unreachable[OF removed(1) assms(2)] by simp
  next
    case delivered
    from removeRequest_unreachable[OF delivered(1) assms(2)] delivered(2)
    have u1: "unreachable k c1" and h: "Some j \<in> held_chans c" by auto
    have "j \<noteq> k" using h assms(2) by (auto simp add: unreachable_def)
    then show ?thesis
      using delivered(3) u1
      by (auto simp add: chan_send_def unreachable_def held_chans_def pending_def
          split: option.splits)
  qed
qed

lemma deliverShutdown_unreachable:
  assumes "deliverShutdown es c = Some c'" "unreachable k c"
    and "set (map (\<lambda>e. responseChan (snd e)) es) \<subseteq> held_chans c"
  shows "unreachable k c' \<and> held_chans c' = held_chans c"
  using assms
proof (induction es arbitrary: c)
  case Nil
  then show ?case by simp
next
  case (Cons e es)
  from Cons.prems(1) obtain c1 where
    s: "chan_send (responseChan (snd e)) \<lparr>result = None, err = Some ErrClientShutdown\<rparr> c = Some c1"
    and d: "deliverShutdown es c1 = Some c'"
    by (auto split: option.splits)
  have "responseChan (snd e) \<noteq> Some k"
    using held_not_unreachable[OF _ Cons.prems(2)] Cons.prems(3) by simp
  then have u1: "unreachable k c1"
    using chan_send_unreachable[OF s _ Cons.prems(2)] by simp
  have h1: "held_chans c1 = held_chans c" using chan_send_held[OF s] .
  show ?case
    using Cons.IH[OF d u1] Cons.prems(3) h1 by simp
qed

lemma Shutdown_unreachable:
  assumes "Shutdown c = Some c'" "unreachable k c"
  shows "unreachable k c'"
proof (cases "shutdown c")
  case True
  then show ?thesis using assms by (simp add: Shutdown_def doShutdown_def)
next
  case False
  let ?c1 = "c\<lparr>shutdown := True\<rparr>"
  from False assms(1) obtain c2 where
    d: "deliverShutdown (requestList ?c1) ?c1 = Some c2"
    and c': "c' = removeAllRequests c2"
    by (auto simp add: Shutdown_def doShutdown_def split: option.splits)
  have u1: "unreachable k ?c1"
    using assms(2) by (simp add: unreachable_def held_chans_def pending_def)
  have "set (map (\<lambda>e. responseChan (snd e)) (requestList ?c1)) \<subseteq> held_chans ?c1"
    by (auto simp add: held_chans_def pending_def)
  from deliverShutdown_unreachable[OF d u1 this] have "unreachable k c2" by simp
  then show ?thesis
    by (auto simp add: c' removeAllRequests_def unreachable_def held_chans_def pending_def)
qed

lemma receiveFuture_unreachable:
  assumes "receiveFuture f c = Some (r, c')" "unreachable k c"
  shows "unreachable k c'"
  using assms
  by (auto simp add: receiveFuture_def unreachable_def held_chans_def pending_def
      split: option.splits)

lemma handleSendPostMessage_unreachable:
  assumes "handleSendPostMessage X details c = Some c'" "unreachable k c"
    and "responseChan (jsonRequest details) \<noteq> Some k"
  shows "unreachable k c'"
proof -
  from assms(1) obtain r where
    s: "chan_send (responseChan (jsonRequest details)) r c = Some c'"
    by (auto simp add: handleSendPostMessage_def Let_def
        split: httpOutcome.splits sum.splits prod.splits)
  show ?thesis
    using chan_send_unreachable[OF s assms(3,2)] .
qed

lemma dequeue_unreachable:
  assumes "unreachable k c" "sendPostChan c = details # q"
  shows "unreachable k (c\<lparr>sendPostChan := q\<rparr>) \<and> responseChan (jsonRequest details) \<noteq> Some k"
  using assms by (auto simp add: unreachable_def held_chans_def pending_def)

lemma cleanup_unreachable:
  assumes "cleanup q c = Some c'" "sendPostChan c = q" "unreachable k c"
  shows "unreachable k c'"
  using assms
proof (induction q arbitrary: c)
  case Nil
  then show ?case by simp
next
  case (Cons details q)
  let ?c0 = "c\<lparr>sendPostChan := q\<rparr>"
  from Cons.prems(1) obtain c1 where
    s: "chan_send (responseChan (jsonRequest details))
          \<lparr>result = None, err = Some ErrClientShutdown\<rparr> ?c0 = Some c1"
    and d: "cleanup q c1 = Some c'"
    by (auto split: option.splits)
  from dequeue_unreachable[OF Cons.prems(3,2)]
  have u0: "unreachable k ?c0" and ne: "responseChan (jsonRequest details) \<noteq> Some k"
    by simp_all
  have u1: "unreachable k c1" using chan_send_unreachable[OF s ne u0] .
  have q1: "sendPostChan c1 = q" using chan_send_registry[OF s] by simp
  show ?case using Cons.IH[OF d q1 u1] .
qed

lemma sendPostHandler_unreachable:
  assumes "sendPostHandler X ps c = Some c'" "unreachable k c"
  shows "unreachable k c'"
  using assms
proof (induction ps arbitrary: c)
  case Nil
  then show ?case by simp
next
  case (Cons p ps)
  show ?case
  proof (cases p)
    case RecvDetails
    with Cons.prems(1) obtain details q c1 where
      q: "sendPostChan c = details # q"
      and h: "handleSendPostMessage X details (c\<lparr>sendPostChan := q\<rparr>) = Some c1"
      and r: "sendPostHandler X ps c1 = Some c'"
      by (auto split: list.splits option.splits)
    from dequeue_unreachable[OF Cons.prems(2) q]
    have "unreachable k c1"
      using handleSendPostMessage_unreachable[OF h] by simp
    then show ?thesis using Cons.IH[OF r] by simp
  next
    case RecvShutdown
    with Cons.prems(1) have "cleanup (sendPostChan c) c = Some c'"
      by (simp split: if_splits)
    then show ?thesis using cleanup_unreachable[OF _ refl Cons.prems(2)] by simp
  qed
qed

lemma sendRequest_unreachable:
  assumes "sendRequest X jReq c = Some c'" "responseChan jReq \<noteq> Some k" "unreachable k c"
  shows "unreachable k c'"
proof (cases "HTTPPostMode (config c)")
  case False
  then show ?thesis using assms by (simp add: sendRequest_def)
next
  case True
  let ?url = "(if \<not> DisableTLS (config c) then ''https'' else ''http'') @ ''://'' @ Host (config c)"
  show ?thesis
  proof (cases "NewRequestWithContext X ''POST'' ?url (marshalledJSON jReq)")
    case (Inl e)
    with True assms(1) have
      "chan_send (responseChan jReq) \<lparr>result = None, err = Some e\<rparr> c = Some c'"
      by (simp add: sendRequest_def sendPost_def Let_def)
    then show ?thesis using chan_send_unreachable assms(2,3) by blast
  next
    case (Inr hr)
    with True assms(1) obtain hr' where
      p: "sendPostRequest hr' jReq c = Some c'"
      by (simp add: sendRequest_def sendPost_def Let_def)
    then obtain c1 where
      c1: "c1 = c \<or> chan_send (responseChan jReq)
                      \<lparr>result = None, err = Some ErrClientShutdown\<rparr> c = Some c1"
      and e: "post_send \<lparr>httpRequest = hr', jsonRequest = jReq\<rparr> c1 = Some c'"
      by (auto simp add: sendPostRequest_def split: option.splits if_splits)
    have u1: "unreachable k c1"
      using c1 chan_send_unreachable assms(2,3) by blast
    show ?thesis
      using e u1 assms(2)
      by (auto simp add: post_send_def unreachable_def held_chans_def pending_def
          split: if_splits)
  qed
qed

lemma make_chan_unreachable:
  "unreachable k c \<Longrightarrow> unreachable k (snd (make_chan c)) \<and> fst (make_chan c) \<noteq> k"
  by (auto simp add: make_chan_def unreachable_def held_chans_def pending_def)

lemma sendCmd_unreachable:
  assumes "sendCmd X command c = Some (f, c')" "unreachable k c"
  shows "unreachable k c'"
proof -
  have nfe: "unreachable k (snd (newFutureError e c0))" if "unreachable k c0" for e c0
    using that
    by (auto simp add: newFutureError_def make_chan_def unreachable_def held_chans_def
        pending_def)
  have nid: "unreachable k (snd (NextID c))"
    using assms(2) by (simp add: NextID_def unreachable_def held_chans_def pending_def)
  show ?thesis
  proof (cases "CmdMethod X command")
    case (Inl e)
    with assms(1) have "c' = snd (newFutureError e c)" by (auto simp add: sendCmd_def)
    then show ?thesis using nfe[OF assms(2)] by simp
  next
    case (Inr m)
    show ?thesis
    proof (cases "MarshalCmd X ''1.0'' (client_id c + 1) command")
      case (Inl e)
      with Inr assms(1) have "c' = snd (newFutureError e (snd (NextID c)))"
        by (auto simp add: sendCmd_def NextID_def)
      then show ?thesis using nfe[OF nid] by simp
    next
      case js: (Inr js)
      let ?c2 = "snd (make_chan (snd (NextID c)))"
      let ?n = "fst (make_chan (snd (NextID c)))"
      from Inr js assms(1) have
        "sendRequest X
           \<lparr>jreq_id = client_id c + 1, jreq_method = m, cmd = command,
            marshalledJSON = js, responseChan = Some ?n\<rparr> ?c2 = Some c'"
        by (auto simp add: sendCmd_def NextID_def split: prod.splits option.splits)
      then show ?thesis
        using sendRequest_unreachable make_chan_unreachable[OF nid] by fastforce
    qed
  qed
qed

lemma run_unreachable:
  assumes "run X ops c = Some c'" "unreachable k c"
  shows "unreachable k c'"
  using assms
proof (induction ops arbitrary: c)
  case Nil
  then show ?case by simp
next
  case (Cons a ops)
  from Cons.prems(1) obtain c1 where
    a: "apply_op X a c = Some c1" and r: "run X ops c1 = Some c'"
    by (auto split: option.splits)
  have "unreachable k c1"
  proof (cases a)
    case (DoSendCmd command)
    then show ?thesis using a Cons.prems(2) sendCmd_unreachable by fastforce
  next
    case (DoHandleMessage msg)
    then show ?thesis using a Cons.prems(2) handleMessage_unreachable by fastforce
  next
    case DoShutdown
    then show ?thesis using a Cons.prems(2) Shutdown_unreachable by fastforce
  next
    case (DoSendPostHandler ps)
    then show ?thesis using a Cons.prems(2) sendPostHandler_unreachable by fastforce
  next
    case (DoReceiveFuture f)
    then show ?thesis using a Cons.prems(2) receiveFuture_unreachable by fastforce
  qed
  then show ?case using Cons.IH[OF r] by simp
qed

text \<open>
  C10. In the default mode (\<open>HTTPPostMode\<close> false) \<open>sendRequest\<close> returns the client
  unchanged. \<open>sendCmd\<close> of a command that marshals then only advances the counter and
  makes the future: the request is neither registered nor queued, and a receive on the
  future parks. When the new channel's address was not already held by a request, no
  run of the client's operations (commands, inbound messages, shutdown, the post
  handler, receives) ever puts a response into it, so the receive parks after every
  run.
\<close>

theorem default_mode_future_never_written:
  "\<not> HTTPPostMode (config c) \<longrightarrow>
     sendRequest X jReq c = Some c \<and>
     (CmdMethod X command = Inr m \<and>
      MarshalCmd X ''1.0'' (client_id c + 1) command = Inr js \<longrightarrow>
        sendCmd X command c =
          Some (Some (chanNext c),
                c\<lparr>client_id := client_id c + 1,
                  chans := (chans c)(chanNext c := None),
                  chanNext := chanNext c + 1\<rparr>) \<and>
        received (sendCmd X command c) = None \<and>
        (next_chan_unused c \<and> sendCmd X command c = Some (f, c1) \<and>
         run X ops c1 = Some c2 \<longrightarrow>
           chans c2 (chanNext c) = None \<and> receiveFuture f c2 = None))"
proof (intro impI conjI)
  assume ws: "\<not> HTTPPostMode (config c)"
  then show "sendRequest X jReq c = Some c" by (simp add: sendRequest_def)
  assume a: "CmdMethod X command = Inr m \<and>
      MarshalCmd X ''1.0'' (client_id c + 1) command = Inr js"
  let ?c1 = "c\<lparr>client_id := client_id c + 1,
                chans := (chans c)(chanNext c := None),
                chanNext := chanNext c + 1\<rparr>"
  show s: "sendCmd X command c = Some (Some (chanNext c), ?c1)"
    using a ws sendCmd_marshalled[of X command m c js]
    by (simp add: sendRequest_def)
  show "received (sendCmd X command c) = None"
    by (simp add: s received_def receiveFuture_def)
  assume b: "next_chan_unused c \<and> sendCmd X command c = Some (f, c1) \<and>
         run X ops c1 = Some c2"
  then have f: "f = Some (chanNext c)" and c1: "c1 = ?c1" using s by simp_all
  have "unreachable (chanNext c) ?c1"
    using b by (simp add: next_chan_unused_def unreachable_def held_chans_def pending_def)
  then have "unreachable (chanNext c) c2"
    using run_unreachable b c1 by blast
  then show "chans c2 (chanNext c) = None" "receiveFuture f c2 = None"
    by (simp_all add: unreachable_def f receiveFuture_def)
qed

theorem default_mode_future_never_written_witness:
  "\<not> HTTPPostMode (config client_ws6) \<and>
   sendRequest X0 req7 client_ws6 = Some client_ws6 \<and>
   CmdMethod X0 ''getblockcount'' = Inr ''getblockcount'' \<and>
   sendCmd X0 ''getblockcount'' client_ws6 = Some (Some 0, client_sent7) \<and>
   received (sendCmd X0 ''getblockcount'' client_ws6) = None \<and>
   next_chan_unused client_ws6 \<and>
   run X0 [DoHandleMessage reply7, DoSendCmd [], DoShutdown] client_sent7 =
     Some (client_sent7\<lparr>shutdown := True,
             chans := (chans client_sent7)(1 \<mapsto>
               \<lparr>result = None, err = Some (LibError ''unregistered command'')\<rparr>),
             chanNext := 2\<rparr>) \<and>
   receiveFuture (Some 0)
     (client_sent7\<lparr>shutdown := True,
        chans := (chans client_sent7)(1 \<mapsto>
          \<lparr>result = None, err = Some (LibError ''unregistered command'')\<rparr>),
        chanNext := 2\<rparr>) = None"
proof -
  have ws: "\<not> HTTPPostMode (config client_ws6)" "client_id client_ws6 = 6"
    "chanNext client_ws6 = 0"
    by (simp_all add: client_ws6_def client_ws_def New_def cfg_ws_def)
  have u: "next_chan_unused client_ws6"
    by (simp add: next_chan_unused_def held_chans_def pending_def client_ws6_def
        client_ws_def New_def)
  have e: "client_ws6\<lparr>client_id := client_id client_ws6 + 1,
             chans := (chans client_ws6)(chanNext client_ws6 := None),
             chanNext := chanNext client_ws6 + 1\<rparr> = client_sent7"
    by (simp add: client_ws6_def client_sent7_def client_ws_def New_def fun_upd_idem)
  have r: "run X0 [DoHandleMessage reply7, DoSendCmd [], DoShutdown] client_sent7 =
     Some (client_sent7\<lparr>shutdown := True,
             chans := (chans client_sent7)(1 \<mapsto>
               \<lparr>result = None, err = Some (LibError ''unregistered command'')\<rparr>),
             chanNext := 2\<rparr>)"
    by (simp add: handleMessage_def X0_simps decode0_simps in_reply_def Trunc_def
        uint64_def removeRequest_def sendCmd_def newFutureError_def make_chan_def
        Shutdown_def doShutdown_def removeAllRequests_def client_sent7_def client_ws_def
        New_def)
  show ?thesis
    using default_mode_future_never_written[where c = client_ws6 and X = X0
        and jReq = req7 and command = "''getblockcount''" and m = "''getblockcount''"
        and js = "''getblockcount''" and f = "Some 0" and ?c1.0 = client_sent7
        and ops = "[DoHandleMessage reply7, DoSendCmd [], DoShutdown]"
        and ?c2.0 = "client_sent7\<lparr>shutdown := True,
             chans := (chans client_sent7)(1 \<mapsto>
               \<lparr>result = None, err = Some (LibError ''unregistered command'')\<rparr>),
             chanNext := 2\<rparr>"]
      ws u e r
    by (auto simp add: X0_simps)
qed

end
